theory Spec2Isabelle
  imports Complex_Main "HOL-Library.Stream"
begin

section \<open>Russel's Viper: the game state of \<^verbatim>\<open>src/russels-viper.tsx\<close>\<close>

text \<open>
  The component \<^verbatim>\<open>RusselsViper\<close> keeps its game in React state slots. A cell and a
  direction are both objects \<^verbatim>\<open>{ x, y }\<close> of numbers; every number the game logic
  computes is an integer, so the fields are of type \<open>int\<close>.
\<close>

record point =
  px :: int
  py :: int

record grid =
  width :: int
  height :: int

datatype difficulty = hard | extreme | nightmare

record tier =
  speed :: nat
  obstacleCount :: nat

text \<open>The table \<^verbatim>\<open>DIFFICULTIES\<close> (the colour of a tier is presentation only).\<close>

fun DIFFICULTIES :: "difficulty \<Rightarrow> tier" where
  "DIFFICULTIES hard = \<lparr>speed = 100, obstacleCount = 10\<rparr>"
| "DIFFICULTIES extreme = \<lparr>speed = 80, obstacleCount = 15\<rparr>"
| "DIFFICULTIES nightmare = \<lparr>speed = 60, obstacleCount = 20\<rparr>"

definition CELL_SIZE :: int where
  "CELL_SIZE = 20"

definition INITIAL_SNAKE :: "point list" where
  "INITIAL_SNAKE = [\<lparr>px = 10, py = 10\<rparr>]"

definition INITIAL_DIRECTION :: point where
  "INITIAL_DIRECTION = \<lparr>px = 1, py = 0\<rparr>"

text \<open>
  The state slots of the component, in the order of their \<^verbatim>\<open>useState\<close> calls
  (\<^verbatim>\<open>snakeColor\<close> is presentation only and left out).
\<close>

record game =
  snake :: "point list"
  direction :: point
  food :: point
  obstacles :: "point list"
  gameOver :: bool
  score :: int
  difficulty :: difficulty
  gridSize :: grid
  isPlaying :: bool

text \<open>The values the \<^verbatim>\<open>useState\<close> calls start from.\<close>

definition initialState :: game where
  "initialState =
     \<lparr>snake = INITIAL_SNAKE, direction = INITIAL_DIRECTION, food = \<lparr>px = 15, py = 15\<rparr>,
      obstacles = [], gameOver = False, score = 0, difficulty = hard,
      gridSize = \<lparr>width = 0, height = 0\<rparr>, isPlaying = False\<rparr>"

text \<open>
  \<^verbatim>\<open>calculateGridSize\<close>: the argument is the client size of the game area in pixels.
\<close>

definition calculateGridSize :: "int \<Rightarrow> int \<Rightarrow> game \<Rightarrow> game" where
  "calculateGridSize clientWidth clientHeight s =
     s\<lparr>gridSize := \<lparr>width = clientWidth div CELL_SIZE, height = clientHeight div CELL_SIZE\<rparr>\<rparr>"

section \<open>Random placement\<close>

text \<open>
  \<^verbatim>\<open>Math.random()\<close> is an input of the program: the sequence of its results is a stream
  of reals, each call taking the next one. That every result lies in \<open>[0, 1)\<close> is a
  hypothesis of the results that need it. A candidate cell is
  \<^verbatim>\<open>{ x: Math.floor(Math.random() * gridSize.width),
     y: Math.floor(Math.random() * gridSize.height) }\<close>,
  the \<open>x\<close> draw first.
\<close>

definition randomCell :: "grid \<Rightarrow> real stream \<Rightarrow> point" where
  "randomCell g rnd =
     \<lparr>px = \<lfloor>shd rnd * of_int (width g)\<rfloor>, py = \<lfloor>shd (stl rnd) * of_int (height g)\<rfloor>\<rparr>"

text \<open>
  Both generators contain the loop \<^verbatim>\<open>do { c = candidate } while (rejected(c))\<close>.
  It may run forever; \<open>None\<close> is the run that never leaves the loop. The result carries
  the random numbers not yet consumed.
\<close>

partial_function (option) sampleCell ::
  "grid \<Rightarrow> (point \<Rightarrow> bool) \<Rightarrow> real stream \<Rightarrow> (point \<times> real stream) option" where
  "sampleCell g rejected rnd =
     (if rejected (randomCell g rnd) then sampleCell g rejected (stl (stl rnd))
      else Some (randomCell g rnd, stl (stl rnd)))"

declare sampleCell.simps [code]

text \<open>The comparison \<^verbatim>\<open>a.x === b.x && a.y === b.y\<close> written at every use.\<close>

definition sameCell :: "point \<Rightarrow> point \<Rightarrow> bool" where
  "sameCell a b \<longleftrightarrow> px a = px b \<and> py a = py b"

text \<open>
  \<^verbatim>\<open>generateFood\<close>: the candidate is rejected while it lies on the snake or on an
  obstacle of the state the callback was created in. The result is the argument of
  \<^verbatim>\<open>setFood\<close>.
\<close>

definition generateFood :: "game \<Rightarrow> real stream \<Rightarrow> (point \<times> real stream) option" where
  "generateFood s rnd =
     sampleCell (gridSize s)
       (\<lambda>newFood. list_ex (\<lambda>segment. sameCell segment newFood) (snake s) \<or>
                  list_ex (\<lambda>obstacle. sameCell obstacle newFood) (obstacles s))
       rnd"

text \<open>
  The \<^verbatim>\<open>for\<close> loop of \<^verbatim>\<open>generateObstacles\<close>; the first argument is the number of
  iterations left, \<open>newObstacles\<close> the array built so far.
\<close>

fun generateObstacles_for ::
  "nat \<Rightarrow> game \<Rightarrow> point list \<Rightarrow> real stream \<Rightarrow> (point list \<times> real stream) option" where
  "generateObstacles_for 0 s newObstacles rnd = Some (newObstacles, rnd)"
| "generateObstacles_for (Suc n) s newObstacles rnd =
     (case sampleCell (gridSize s)
             (\<lambda>obstacle. list_ex (\<lambda>segment. sameCell segment obstacle) (snake s) \<or>
                         list_ex (\<lambda>obs. sameCell obs obstacle) newObstacles \<or>
                         sameCell (food s) obstacle)
             rnd of
        None \<Rightarrow> None
      | Some (obstacle, rnd') \<Rightarrow> generateObstacles_for n s (newObstacles @ [obstacle]) rnd')"

text \<open>\<^verbatim>\<open>generateObstacles\<close>: the result is the argument of \<^verbatim>\<open>setObstacles\<close>.\<close>

definition generateObstacles :: "game \<Rightarrow> real stream \<Rightarrow> (point list \<times> real stream) option" where
  "generateObstacles s rnd =
     generateObstacles_for (obstacleCount (DIFFICULTIES (difficulty s))) s [] rnd"

section \<open>One tick\<close>

text \<open>The new head of \<^verbatim>\<open>moveSnake\<close>: the old head moved by the direction, then wrapped.\<close>

definition wrapAround :: "grid \<Rightarrow> point \<Rightarrow> point" where
  "wrapAround g head0 =
     (let head1 = (if px head0 < 0 then head0\<lparr>px := width g - 1\<rparr> else head0);
          head2 = (if px head1 \<ge> width g then head1\<lparr>px := 0\<rparr> else head1);
          head3 = (if py head2 < 0 then head2\<lparr>py := height g - 1\<rparr> else head2);
          head4 = (if py head3 \<ge> height g then head3\<lparr>py := 0\<rparr> else head3)
      in head4)"

definition newHead :: "game \<Rightarrow> point \<Rightarrow> point" where
  "newHead s h =
     wrapAround (gridSize s) \<lparr>px = px h + px (direction s), py = py h + py (direction s)\<rparr>"

text \<open>The collision test of \<^verbatim>\<open>moveSnake\<close>, against the obstacles and the copy of the old snake.\<close>

definition collision :: "game \<Rightarrow> point \<Rightarrow> bool" where
  "collision s head \<longleftrightarrow>
     list_ex (\<lambda>obstacle. sameCell obstacle head) (obstacles s) \<or>
     list_ex (\<lambda>segment. sameCell segment head) (snake s)"

text \<open>
  \<^verbatim>\<open>moveSnake\<close>: the state after the updater passed to \<^verbatim>\<open>setSnake\<close> has run and the
  updates it queued (\<^verbatim>\<open>setGameOver\<close>, \<^verbatim>\<open>setIsPlaying\<close>, \<^verbatim>\<open>setScore\<close>, \<^verbatim>\<open>setFood\<close>,
  \<^verbatim>\<open>setObstacles\<close>) are applied. \<^verbatim>\<open>score\<close>, \<^verbatim>\<open>food\<close>, \<^verbatim>\<open>obstacles\<close> and the two
  generators are the ones of the render the callback was created in: the state before the
  tick. With an empty snake (never the case in a game) the head is \<^verbatim>\<open>{ x: NaN, y: NaN }\<close>:
  every comparison fails, the head is added and popped again, nothing changes.
\<close>

definition moveSnake :: "game \<Rightarrow> real stream \<Rightarrow> (game \<times> real stream) option" where
  "moveSnake s rnd =
     (case snake s of
        [] \<Rightarrow> Some (s, rnd)
      | h # _ \<Rightarrow>
          let head = newHead s h in
          if collision s head then Some (s\<lparr>gameOver := True, isPlaying := False\<rparr>, rnd)
          else if px head = px (food s) \<and> py head = py (food s) then
            (case generateFood s rnd of
               None \<Rightarrow> None
             | Some (newFood, rnd1) \<Rightarrow>
                 if score s > 0 \<and> score s mod 5 = 0 then
                   (case generateObstacles s rnd1 of
                      None \<Rightarrow> None
                    | Some (newObstacles, rnd2) \<Rightarrow>
                        Some (s\<lparr>snake := head # snake s, score := score s + 1,
                                food := newFood, obstacles := newObstacles\<rparr>, rnd2))
                 else Some (s\<lparr>snake := head # snake s, score := score s + 1,
                              food := newFood\<rparr>, rnd1))
          else Some (s\<lparr>snake := butlast (head # snake s)\<rparr>, rnd))"

section \<open>Keys, buttons and the game loop\<close>

datatype key = ArrowUp | ArrowDown | ArrowLeft | ArrowRight | OtherKey

text \<open>\<^verbatim>\<open>handleKeyPress\<close>: the updater each case passes to \<^verbatim>\<open>setDirection\<close>.\<close>

fun handleKeyPress :: "key \<Rightarrow> point \<Rightarrow> point" where
  "handleKeyPress ArrowUp prev = (if py prev = 0 then \<lparr>px = 0, py = -1\<rparr> else prev)"
| "handleKeyPress ArrowDown prev = (if py prev = 0 then \<lparr>px = 0, py = 1\<rparr> else prev)"
| "handleKeyPress ArrowLeft prev = (if px prev = 0 then \<lparr>px = -1, py = 0\<rparr> else prev)"
| "handleKeyPress ArrowRight prev = (if px prev = 0 then \<lparr>px = 1, py = 0\<rparr> else prev)"
| "handleKeyPress OtherKey prev = prev"

text \<open>
  \<^verbatim>\<open>startGame\<close>: the two generators run on the state of the render the button was
  drawn in, food first; the seven updates are applied together.
\<close>

definition startGame :: "game \<Rightarrow> real stream \<Rightarrow> (game \<times> real stream) option" where
  "startGame s rnd =
     (case generateFood s rnd of
        None \<Rightarrow> None
      | Some (newFood, rnd1) \<Rightarrow>
          (case generateObstacles s rnd1 of
             None \<Rightarrow> None
           | Some (newObstacles, rnd2) \<Rightarrow>
               Some (s\<lparr>snake := INITIAL_SNAKE, direction := INITIAL_DIRECTION, food := newFood,
                       obstacles := newObstacles, gameOver := False, score := 0,
                       isPlaying := True\<rparr>, rnd2)))"

definition pauseGame :: "game \<Rightarrow> game" where
  "pauseGame s = s\<lparr>isPlaying := False\<rparr>"

definition resumeGame :: "game \<Rightarrow> game" where
  "resumeGame s = s\<lparr>isPlaying := True\<rparr>"

text \<open>
  What can happen to the component. The key listener and the interval that calls
  \<^verbatim>\<open>moveSnake\<close> exist only while \<^verbatim>\<open>isPlaying\<close>; a button can be clicked only while it
  is rendered: Start when \<^verbatim>\<open>!isPlaying && !gameOver\<close>, Pause when \<^verbatim>\<open>isPlaying\<close>, Resume when
  \<^verbatim>\<open>!isPlaying && !gameOver && score > 0\<close>, Play Again when \<^verbatim>\<open>gameOver\<close>; the difficulty
  buttons always.
\<close>

datatype event =
    Tick
  | KeyDown key
  | ClickStart
  | ClickPause
  | ClickResume
  | ClickPlayAgain
  | ClickDifficulty difficulty
  | Resize int int

fun step :: "game \<Rightarrow> event \<Rightarrow> real stream \<Rightarrow> (game \<times> real stream) option" where
  "step s Tick rnd = (if isPlaying s then moveSnake s rnd else Some (s, rnd))"
| "step s (KeyDown k) rnd =
     (if isPlaying s then Some (s\<lparr>direction := handleKeyPress k (direction s)\<rparr>, rnd)
      else Some (s, rnd))"
| "step s ClickStart rnd =
     (if \<not> isPlaying s \<and> \<not> gameOver s then startGame s rnd else Some (s, rnd))"
| "step s ClickPause rnd = (if isPlaying s then Some (pauseGame s, rnd) else Some (s, rnd))"
| "step s ClickResume rnd =
     (if \<not> isPlaying s \<and> \<not> gameOver s \<and> score s > 0 then Some (resumeGame s, rnd)
      else Some (s, rnd))"
| "step s ClickPlayAgain rnd = (if gameOver s then startGame s rnd else Some (s, rnd))"
| "step s (ClickDifficulty d) rnd = Some (s\<lparr>difficulty := d\<rparr>, rnd)"
| "step s (Resize w h) rnd = Some (calculateGridSize w h s, rnd)"

text \<open>The states the component can be in: those some sequence of events leads to.\<close>

inductive reachable :: "game \<Rightarrow> bool" where
  reachable_init: "reachable initialState"
| reachable_step: "reachable s \<Longrightarrow> step s e rnd = Some (s', rnd') \<Longrightarrow> reachable s'"

section \<open>Example states\<close>

text \<open>
  A running game on a 20 by 20 grid at difficulty \<open>hard\<close>, given by its snake, direction,
  food, obstacles and score: the states the scenarios below start from.
\<close>

abbreviation cell :: "int \<Rightarrow> int \<Rightarrow> point" where
  "cell a b \<equiv> \<lparr>px = a, py = b\<rparr>"

definition running :: "point list \<Rightarrow> point \<Rightarrow> point \<Rightarrow> point list \<Rightarrow> int \<Rightarrow> game" where
  "running sn d f obs sc =
     \<lparr>snake = sn, direction = d, food = f, obstacles = obs, gameOver = False, score = sc,
      difficulty = hard, gridSize = \<lparr>width = 20, height = 20\<rparr>, isPlaying = True\<rparr>"

text \<open>
  The state after a first game on that grid has ended by running into an obstacle, and the
  random numbers that lead to it.
\<close>

definition overExample :: game where
  "overExample =
     \<lparr>snake = [cell 10 10], direction = cell 1 0, food = cell 3 3,
      obstacles = [cell 11 10, cell 0 1, cell 0 2, cell 0 3, cell 0 4, cell 0 5, cell 0 6,
                   cell 0 7, cell 0 8, cell 0 9],
      gameOver = True, score = 0, difficulty = hard,
      gridSize = \<lparr>width = 20, height = 20\<rparr>, isPlaying = False\<rparr>"

definition startDraws :: "real stream" where
  "startDraws = [3/20, 3/20, 11/20, 10/20, 0, 1/20, 0, 2/20, 0, 3/20, 0, 4/20, 0, 5/20,
                 0, 6/20, 0, 7/20, 0, 8/20, 0, 9/20] @- sconst 0"

text \<open>Obstacle sets and random numbers of the scenarios.\<close>

definition tenObstacles :: "point list" where
  "tenObstacles = [cell 0 0, cell 0 1, cell 0 2, cell 0 3, cell 0 4, cell 0 5, cell 0 6,
                   cell 0 7, cell 0 8, cell 0 9]"




definition clashDraws :: "real stream" where
  "clashDraws = [0.15, 0.17, 0.16, 0.18, 0.001, 0.07, 0.002, 0.12, 0.003, 0.17, 0.004, 0.22,
                 0.005, 0.27, 0.006, 0.32, 0.007, 0.37, 0.008, 0.42, 0.009, 0.47] @- sconst 0"

section \<open>Facts about the placement loop\<close>

lemma sameCell_eq: "sameCell a b \<longleftrightarrow> a = (b::point)"
  by (auto simp: sameCell_def)

lemma sampleCell_accepts_raw:
  assumes "sampleCell g rejected rnd = Some y"
  shows "\<not> rejected (fst y)"
proof (rule sampleCell.raw_induct
    [where P = "\<lambda>g rejected rnd y. \<not> rejected (fst y)", OF _ assms])
  fix f g rejected rnd y
  assume IH: "\<And>g rejected rnd y. f g rejected rnd = Some y \<Longrightarrow> \<not> rejected (fst y)"
    and eq: "(if rejected (randomCell g rnd) then f g rejected (stl (stl rnd))
              else Some (randomCell g rnd, stl (stl rnd))) = Some y"
  show "\<not> rejected (fst y)"
  proof (cases "rejected (randomCell g rnd)")
    case True
    with eq have "f g rejected (stl (stl rnd)) = Some y" by simp
    then show ?thesis by (rule IH)
  next
    case False
    with eq show ?thesis by auto
  qed
qed

lemma sampleCell_accepts:
  "sampleCell g rejected rnd = Some (c, rnd') \<Longrightarrow> \<not> rejected c"
  using sampleCell_accepts_raw by fastforce







lemma generateFood_result:
  assumes "generateFood s rnd = Some (c, rnd')"
  shows "c \<notin> set (snake s) \<and> c \<notin> set (obstacles s)"
  using sampleCell_accepts[OF assms[unfolded generateFood_def]]
  by (auto simp: list_ex_iff sameCell_eq)

section \<open>Facts about one tick\<close>

lemmas tick_eval = running_def newHead_def wrapAround_def

lemmas placement_eval = generateFood_def generateObstacles_def sampleCell.simps randomCell_def
  sameCell_def

lemma list_ex_sameCell: "list_ex (\<lambda>c. sameCell c p) cs \<longleftrightarrow> p \<in> set cs"
  by (auto simp: list_ex_iff sameCell_eq)

lemma collision_iff: "collision s p \<longleftrightarrow> p \<in> set (obstacles s) \<or> p \<in> set (snake s)"
  by (simp add: collision_def list_ex_sameCell)

lemma point_eq_iff: "px a = px b \<and> py a = py b \<longleftrightarrow> a = (b::point)"
  by auto

lemma moveSnake_collision:
  assumes "snake s = h # t" "collision s (newHead s h)"
  shows "moveSnake s rnd = Some (s\<lparr>gameOver := True, isPlaying := False\<rparr>, rnd)"
  using assms by (simp add: moveSnake_def)

lemma moveSnake_plain:
  assumes "snake s = h # t" "\<not> collision s (newHead s h)" "newHead s h \<noteq> food s"
  shows "moveSnake s rnd = Some (s\<lparr>snake := newHead s h # butlast (snake s)\<rparr>, rnd)"
  using assms by (simp add: moveSnake_def Let_def point_eq_iff)



section \<open>Facts about events and reachable states\<close>

lemma moveSnake_frame:
  assumes "moveSnake s rnd = Some (s', rnd')"
  shows "direction s' = direction s \<and> gridSize s' = gridSize s \<and> difficulty s' = difficulty s \<and>
         (gameOver s' \<and> \<not> isPlaying s' \<or>
          gameOver s' = gameOver s \<and> isPlaying s' = isPlaying s)"
  using assms
  by (auto simp: moveSnake_def Let_def split: list.splits option.splits if_splits)

lemma startGame_frame:
  assumes "startGame s rnd = Some (s', rnd')"
  shows "direction s' = INITIAL_DIRECTION \<and> snake s' = INITIAL_SNAKE \<and> score s' = 0 \<and>
         \<not> gameOver s' \<and> isPlaying s' \<and> gridSize s' = gridSize s \<and>
         difficulty s' = difficulty s"
  using assms by (auto simp: startGame_def split: option.splits)

lemma handleKeyPress_unit:
  assumes "d \<in> {cell 1 0, cell (- 1) 0, cell 0 1, cell 0 (- 1)}"
  shows "handleKeyPress k d \<in> {cell 1 0, cell (- 1) 0, cell 0 1, cell 0 (- 1)}"
  using assms by (cases k) auto

lemma step_invariant:
  assumes "step s e rnd = Some (s', rnd')"
    and "gameOver s \<longrightarrow> \<not> isPlaying s"
    and "direction s \<in> {cell 1 0, cell (- 1) 0, cell 0 1, cell 0 (- 1)}"
  shows "(gameOver s' \<longrightarrow> \<not> isPlaying s') \<and>
         direction s' \<in> {cell 1 0, cell (- 1) 0, cell 0 1, cell 0 (- 1)}"
proof (cases e)
  case Tick
  with assms(1) have "s' = s \<or> moveSnake s rnd = Some (s', rnd')" by (auto split: if_splits)
  then show ?thesis using moveSnake_frame[of s rnd s' rnd'] assms(2,3) by auto
next
  case (KeyDown k)
  with assms(1) have "s' = s \<or> s' = s\<lparr>direction := handleKeyPress k (direction s)\<rparr>"
    by (auto split: if_splits)
  then show ?thesis using handleKeyPress_unit[OF assms(3), of k] assms(2,3) by auto
next
  case ClickStart
  with assms(1) have "s' = s \<or> startGame s rnd = Some (s', rnd')" by (auto split: if_splits)
  then show ?thesis using startGame_frame[of s rnd s' rnd'] assms(2,3)
    by (auto simp: INITIAL_DIRECTION_def)
next
  case ClickPause
  with assms show ?thesis by (auto simp: pauseGame_def split: if_splits)
next
  case ClickResume
  with assms show ?thesis by (auto simp: resumeGame_def split: if_splits)
next
  case ClickPlayAgain
  with assms(1) have "s' = s \<or> startGame s rnd = Some (s', rnd')" by (auto split: if_splits)
  then show ?thesis using startGame_frame[of s rnd s' rnd'] assms(2,3)
    by (auto simp: INITIAL_DIRECTION_def)
next
  case (ClickDifficulty d)
  with assms show ?thesis by auto
next
  case (Resize w h)
  with assms show ?thesis by (auto simp: calculateGridSize_def)
qed

lemma reachable_invariant:
  assumes "reachable s"
  shows "(gameOver s \<longrightarrow> \<not> isPlaying s) \<and>
         direction s \<in> {cell 1 0, cell (- 1) 0, cell 0 1, cell 0 (- 1)}"
  using assms
proof (induction rule: reachable.induct)
  case reachable_init
  show ?case by (simp add: initialState_def INITIAL_DIRECTION_def)
next
  case (reachable_step s e rnd s' rnd')
  from step_invariant[OF reachable_step.hyps(2)] reachable_step.IH show ?case by blast
qed

lemma reachable_overExample: "reachable overExample"
proof -
  let ?s1 = "calculateGridSize 400 400 initialState"
  let ?s2 = "overExample\<lparr>gameOver := False, isPlaying := True\<rparr>"
  have r1: "reachable ?s1"
    by (rule reachable_step[OF reachable_init, of "Resize 400 400" "sconst 0" _ "sconst 0"]) simp
  have "step ?s1 ClickStart startDraws = Some (?s2, sconst 0)"
    by (simp add: startGame_def startDraws_def overExample_def calculateGridSize_def
        initialState_def INITIAL_SNAKE_def INITIAL_DIRECTION_def CELL_SIZE_def placement_eval
        eval_nat_numeral)
  from reachable_step[OF r1 this] have r2: "reachable ?s2" .
  have "step ?s2 Tick (sconst 0) = Some (overExample, sconst 0)"
    by (simp add: overExample_def moveSnake_def collision_def newHead_def wrapAround_def
        sameCell_def)
  from reachable_step[OF r2 this] show ?thesis .
qed


section \<open>Evaluated ticks\<close>



section \<open>The claims\<close>




text \<open>
  C2 fails on the code. Both generators test their candidates against the state of before
  the action. On the first start of a 20 by 20 game the food and the first obstacle can be
  drawn on the same cell; on a tick that eats the food the new food can be drawn on the cell
  just eaten, where the new head of the snake is.
\<close>

theorem placement_overlaps:
  "startGame (calculateGridSize 400 400 initialState) clashDraws
     = Some (running [cell 10 10] (cell 1 0) (cell 3 3)
               [cell 3 3, cell 0 1, cell 0 2, cell 0 3, cell 0 4, cell 0 5, cell 0 6, cell 0 7,
                cell 0 8, cell 0 9] 0, sconst 0) \<and>
   food (running [cell 10 10] (cell 1 0) (cell 3 3)
               [cell 3 3, cell 0 1, cell 0 2, cell 0 3, cell 0 4, cell 0 5, cell 0 6, cell 0 7,
                cell 0 8, cell 0 9] 0)
     \<in> set (obstacles (running [cell 10 10] (cell 1 0) (cell 3 3)
               [cell 3 3, cell 0 1, cell 0 2, cell 0 3, cell 0 4, cell 0 5, cell 0 6, cell 0 7,
                cell 0 8, cell 0 9] 0)) \<and>
   moveSnake (running [cell 10 10] (cell 1 0) (cell 11 10) tenObstacles 0) ([11/20, 10/20] @- sconst 0)
     = Some (running [cell 11 10, cell 10 10] (cell 1 0) (cell 11 10) tenObstacles 1, sconst 0) \<and>
   food (running [cell 11 10, cell 10 10] (cell 1 0) (cell 11 10) tenObstacles 1)
     \<in> set (snake (running [cell 11 10, cell 10 10] (cell 1 0) (cell 11 10) tenObstacles 1))"
proof -
  have 1: "startGame (calculateGridSize 400 400 initialState) clashDraws
     = Some (running [cell 10 10] (cell 1 0) (cell 3 3)
               [cell 3 3, cell 0 1, cell 0 2, cell 0 3, cell 0 4, cell 0 5, cell 0 6, cell 0 7,
                cell 0 8, cell 0 9] 0, sconst 0)"
    by (simp add: startGame_def clashDraws_def running_def calculateGridSize_def
        initialState_def INITIAL_SNAKE_def INITIAL_DIRECTION_def CELL_SIZE_def placement_eval
        eval_nat_numeral)
  have 2: "moveSnake (running [cell 10 10] (cell 1 0) (cell 11 10) tenObstacles 0)
             ([11/20, 10/20] @- sconst 0)
     = Some (running [cell 11 10, cell 10 10] (cell 1 0) (cell 11 10) tenObstacles 1, sconst 0)"
    by (simp add: moveSnake_def collision_def tick_eval placement_eval Let_def tenObstacles_def)
  from 1 2 show ?thesis by (simp add: running_def)
qed

text \<open>
  C3. A tick whose wrapped new head lies on an obstacle or on a cell of the snake as it is
  before the tick ends the game: \<open>gameOver\<close> is set, \<open>isPlaying\<close> is cleared, and the snake,
  the food, the obstacles and the score are what they were before the tick. No random number
  is consumed.
\<close>

theorem collision_tick_ends_game:
  assumes "snake s = h # t"
    and "newHead s h \<in> set (obstacles s) \<or> newHead s h \<in> set (snake s)"
  shows "\<exists>s'. moveSnake s rnd = Some (s', rnd) \<and> gameOver s' \<and> \<not> isPlaying s' \<and>
           snake s' = snake s \<and> food s' = food s \<and> obstacles s' = obstacles s \<and>
           score s' = score s"
proof -
  from assms(2) have "collision s (newHead s h)" by (simp add: collision_iff)
  from moveSnake_collision[OF assms(1) this] show ?thesis by simp
qed

theorem collision_tick_ends_game_witness:
  "snake (running [cell 5 5, cell 4 5, cell 3 5] (cell 0 1) (cell 15 15) [cell 5 6] 0)
     = cell 5 5 # [cell 4 5, cell 3 5] \<and>
   newHead (running [cell 5 5, cell 4 5, cell 3 5] (cell 0 1) (cell 15 15) [cell 5 6] 0) (cell 5 5)
     \<in> set (obstacles (running [cell 5 5, cell 4 5, cell 3 5] (cell 0 1) (cell 15 15) [cell 5 6] 0)) \<and>
   (\<exists>s'. moveSnake (running [cell 5 5, cell 4 5, cell 3 5] (cell 0 1) (cell 15 15) [cell 5 6] 0)
            (sconst 0) = Some (s', sconst 0) \<and>
         gameOver s' \<and> \<not> isPlaying s' \<and> snake s' = [cell 5 5, cell 4 5, cell 3 5] \<and>
         food s' = cell 15 15 \<and> obstacles s' = [cell 5 6] \<and> score s' = 0)"
proof -
  let ?s = "running [cell 5 5, cell 4 5, cell 3 5] (cell 0 1) (cell 15 15) [cell 5 6] 0"
  have h1: "snake ?s = cell 5 5 # [cell 4 5, cell 3 5]" by (simp add: running_def)
  have h2: "newHead ?s (cell 5 5) \<in> set (obstacles ?s)" by (simp add: tick_eval)
  have sel: "food ?s = cell 15 15" "obstacles ?s = [cell 5 6]" "score ?s = 0"
    by (simp_all add: running_def)
  from collision_tick_ends_game[OF h1 disjI1[OF h2], of "sconst 0"] h1 h2 show ?thesis
    unfolding sel h1 by simp
qed

text \<open>
  C4. The self-collision test runs on the whole snake of before the tick, the last segment
  included: a new head that lands on the cell of the last segment ends the game, although
  that cell would have been vacated by the same tick.
\<close>

theorem tail_cell_still_occupied:
  assumes "snake s \<noteq> []" and "newHead s (hd (snake s)) = last (snake s)"
  shows "\<exists>s'. moveSnake s rnd = Some (s', rnd) \<and> gameOver s' \<and> \<not> isPlaying s' \<and>
           snake s' = snake s"
proof -
  from assms(1) obtain h t where ht: "snake s = h # t" by (cases "snake s") auto
  have "last (snake s) \<in> set (snake s)" using assms(1) by simp
  with assms(2) ht have "collision s (newHead s h)" by (simp add: collision_iff)
  from moveSnake_collision[OF ht this] show ?thesis by simp
qed

theorem tail_cell_still_occupied_witness:
  "snake (running [cell 5 5, cell 5 6, cell 6 6, cell 6 5] (cell 1 0) (cell 15 15) [] 3) \<noteq> [] \<and>
   newHead (running [cell 5 5, cell 5 6, cell 6 6, cell 6 5] (cell 1 0) (cell 15 15) [] 3)
       (hd (snake (running [cell 5 5, cell 5 6, cell 6 6, cell 6 5] (cell 1 0) (cell 15 15) [] 3)))
     = last (snake (running [cell 5 5, cell 5 6, cell 6 6, cell 6 5] (cell 1 0) (cell 15 15) [] 3)) \<and>
   (\<exists>s'. moveSnake (running [cell 5 5, cell 5 6, cell 6 6, cell 6 5] (cell 1 0) (cell 15 15) [] 3)
            (sconst 0) = Some (s', sconst 0) \<and>
         gameOver s' \<and> \<not> isPlaying s' \<and>
         snake s' = [cell 5 5, cell 5 6, cell 6 6, cell 6 5])"
proof -
  let ?s = "running [cell 5 5, cell 5 6, cell 6 6, cell 6 5] (cell 1 0) (cell 15 15) [] 3"
  have sn: "snake ?s = [cell 5 5, cell 5 6, cell 6 6, cell 6 5]" by (simp add: running_def)
  have h1: "snake ?s \<noteq> []" by (simp add: sn)
  have h2: "newHead ?s (hd (snake ?s)) = last (snake ?s)" by (simp add: tick_eval)
  from tail_cell_still_occupied[OF h1 h2, of "sconst 0"] h1 h2 show ?thesis
    unfolding sn by simp
qed







text \<open>
  C8. In a reachable state with \<open>gameOver\<close> set the game is not playing, so a tick of the timer
  changes nothing; every event other than a click on Play Again, which calls \<^verbatim>\<open>startGame\<close>,
  leaves \<open>gameOver\<close> set and the snake, the food, the obstacles and the score as they are.
  \<^verbatim>\<open>startGame\<close>, when it returns, leaves the state: the game is playing again from the
  initial snake with score 0.
\<close>

theorem over_is_terminal:
  assumes "reachable s" and "gameOver s"
  shows "\<not> isPlaying s \<and>
         step s Tick rnd = Some (s, rnd) \<and>
         (e \<noteq> ClickPlayAgain \<longrightarrow>
            (\<exists>s'. step s e rnd = Some (s', rnd) \<and> gameOver s' \<and> \<not> isPlaying s' \<and>
                  snake s' = snake s \<and> food s' = food s \<and> obstacles s' = obstacles s \<and>
                  score s' = score s)) \<and>
         (\<forall>s' rnd'. step s ClickPlayAgain rnd = Some (s', rnd') \<longrightarrow>
                  \<not> gameOver s' \<and> isPlaying s' \<and> snake s' = INITIAL_SNAKE \<and> score s' = 0)"
proof -
  from reachable_invariant[OF assms(1)] assms(2) have np: "\<not> isPlaying s" by blast
  have tick: "step s Tick rnd = Some (s, rnd)" using np by simp
  have others: "e \<noteq> ClickPlayAgain \<longrightarrow>
            (\<exists>s'. step s e rnd = Some (s', rnd) \<and> gameOver s' \<and> \<not> isPlaying s' \<and>
                  snake s' = snake s \<and> food s' = food s \<and> obstacles s' = obstacles s \<and>
                  score s' = score s)"
    using np assms(2) by (cases e) (simp_all add: calculateGridSize_def)
  have start: "\<forall>s' rnd'. step s ClickPlayAgain rnd = Some (s', rnd') \<longrightarrow>
                  \<not> gameOver s' \<and> isPlaying s' \<and> snake s' = INITIAL_SNAKE \<and> score s' = 0"
    using assms(2) startGame_frame[of s rnd] by auto
  from np tick others start show ?thesis by blast
qed

theorem over_is_terminal_witness:
  "reachable overExample \<and> gameOver overExample \<and> \<not> isPlaying overExample \<and>
   step overExample Tick (sconst 0) = Some (overExample, sconst 0) \<and>
   KeyDown ArrowUp \<noteq> ClickPlayAgain \<and>
   (\<exists>s'. step overExample (KeyDown ArrowUp) (sconst 0) = Some (s', sconst 0) \<and> gameOver s' \<and>
         \<not> isPlaying s' \<and> snake s' = snake overExample \<and> food s' = food overExample \<and>
         obstacles s' = obstacles overExample \<and> score s' = score overExample) \<and>
   step overExample ClickPlayAgain startDraws
     = Some (overExample\<lparr>gameOver := False, isPlaying := True\<rparr>, sconst 0) \<and>
   \<not> gameOver (overExample\<lparr>gameOver := False, isPlaying := True\<rparr>) \<and>
   isPlaying (overExample\<lparr>gameOver := False, isPlaying := True\<rparr>)"
proof -
  have g: "gameOver overExample" by (simp add: overExample_def)
  have again: "step overExample ClickPlayAgain startDraws
     = Some (overExample\<lparr>gameOver := False, isPlaying := True\<rparr>, sconst 0)"
    by (simp add: startGame_def startDraws_def overExample_def INITIAL_SNAKE_def
        INITIAL_DIRECTION_def placement_eval eval_nat_numeral)
  from over_is_terminal[OF reachable_overExample g, of "sconst 0" "KeyDown ArrowUp"]
    over_is_terminal[OF reachable_overExample g, of startDraws Tick]
    reachable_overExample g again
  show ?thesis by simp
qed




text \<open>
  C10. A tick whose new head neither collides nor is the food cell changes the snake only:
  the food, the obstacles, the score, \<open>gameOver\<close>, \<open>isPlaying\<close>, the difficulty, the direction
  and the grid size are the ones of before the tick, and no random number is consumed.
\<close>

theorem plain_tick_frame:
  assumes "snake s = h # t"
    and "newHead s h \<notin> set (obstacles s)" and "newHead s h \<notin> set (snake s)"
    and "newHead s h \<noteq> food s"
  shows "\<exists>s'. moveSnake s rnd = Some (s', rnd) \<and>
           snake s' = newHead s h # butlast (snake s) \<and>
           food s' = food s \<and> obstacles s' = obstacles s \<and> score s' = score s \<and>
           gameOver s' = gameOver s \<and> isPlaying s' = isPlaying s \<and>
           difficulty s' = difficulty s \<and> direction s' = direction s \<and>
           gridSize s' = gridSize s"
proof -
  from assms(2,3) have "\<not> collision s (newHead s h)" by (simp add: collision_iff)
  from moveSnake_plain[OF assms(1) this assms(4)] show ?thesis by simp
qed

theorem plain_tick_frame_witness:
  "snake (running [cell 5 5, cell 4 5, cell 3 5] (cell 0 1) (cell 15 15) [cell 9 9] 2)
     = cell 5 5 # [cell 4 5, cell 3 5] \<and>
   newHead (running [cell 5 5, cell 4 5, cell 3 5] (cell 0 1) (cell 15 15) [cell 9 9] 2) (cell 5 5)
     = cell 5 6 \<and>
   (\<exists>s'. moveSnake (running [cell 5 5, cell 4 5, cell 3 5] (cell 0 1) (cell 15 15) [cell 9 9] 2)
            (sconst 0) = Some (s', sconst 0) \<and>
         snake s' = [cell 5 6, cell 5 5, cell 4 5] \<and> food s' = cell 15 15 \<and>
         obstacles s' = [cell 9 9] \<and> score s' = 2 \<and> \<not> gameOver s' \<and> isPlaying s' \<and>
         difficulty s' = hard \<and> direction s' = cell 0 1 \<and>
         gridSize s' = \<lparr>width = 20, height = 20\<rparr>)"
proof -
  let ?s = "running [cell 5 5, cell 4 5, cell 3 5] (cell 0 1) (cell 15 15) [cell 9 9] 2"
  have h1: "snake ?s = cell 5 5 # [cell 4 5, cell 3 5]" by (simp add: running_def)
  have nh: "newHead ?s (cell 5 5) = cell 5 6" by (simp add: tick_eval)
  have sel: "food ?s = cell 15 15" "obstacles ?s = [cell 9 9]" "score ?s = 2"
    "gameOver ?s = False" "isPlaying ?s = True" "difficulty ?s = hard" "direction ?s = cell 0 1"
    "gridSize ?s = \<lparr>width = 20, height = 20\<rparr>"
    by (simp_all add: running_def)
  have h2: "newHead ?s (cell 5 5) \<notin> set (obstacles ?s)" by (simp add: nh sel)
  have h3: "newHead ?s (cell 5 5) \<notin> set (snake ?s)" by (simp add: nh h1)
  have h4: "newHead ?s (cell 5 5) \<noteq> food ?s" by (simp add: nh sel)
  from plain_tick_frame[OF h1 h2 h3 h4, of "sconst 0"] h1 nh show ?thesis
    unfolding sel h1 nh by simp
qed

end
